theory Spec2Isabelle
  imports Main
begin

section \<open>The machine scope of pkg/cloud/scope/machine.go\<close>

text \<open>
  A shallow embedding of \<^verbatim>\<open>src/pkg/cloud/scope/machine.go\<close>: the parameters of
  \<^verbatim>\<open>NewMachineScope\<close>, the \<^verbatim>\<open>MachineScope\<close> it builds and the methods of the scope.

  Go pointers to structs (\<^verbatim>\<open>*clusterv1.Machine\<close>, \<^verbatim>\<open>*infrav1.AWSMachine\<close>, ...) and
  interfaces are \<open>option\<close> values in the parameters, with \<open>None\<close> for \<^verbatim>\<open>nil\<close>; a scope
  that the constructor returned holds them non-nil, so the scope holds the records themselves.
  Go maps are reference objects that \<^verbatim>\<open>SetAnnotation\<close> and \<^verbatim>\<open>Tags.Merge\<close> update in place:
  they live in an explicit store of map objects, and every field of map type (annotations,
  tags, the owner machine's labels) holds an address into that store (\<open>None\<close> for the nil
  map), so two fields can hold the same map object.
  The pointers that \<^verbatim>\<open>SetInstanceState\<close> and \<^verbatim>\<open>SetErrorReason\<close> store are the addresses
  of their own parameters: these fields hold addresses into a store of cells, so a cell
  that is new can be told from one that was there before the call.
  The \<^verbatim>\<open>*string\<close> fields are read by content only (\<^verbatim>\<open>GetProviderID\<close>) and nothing is
  ever written through them: they are \<open>option\<close> values. A slice is the list of its
  elements; no method writes through one.
\<close>

subsection \<open>Errors\<close>

text \<open>
  \<^verbatim>\<open>github.com/pkg/errors\<close>: \<^verbatim>\<open>errors.New(msg)\<close> and \<^verbatim>\<open>errors.Wrap(err, msg)\<close>.
  Errors that the collaborators return are values of the same type.
\<close>

datatype error = errors_New string | errors_Wrap error string


subsection \<open>The stores of map objects and cells, and the backing store\<close>

text \<open>
  \<^verbatim>\<open>infrav1.InstanceState\<close> and \<^verbatim>\<open>capierrors.MachineStatusError\<close> are string types. A cell
  is what a pointer to one of them refers to.
\<close>

datatype InstanceState = InstanceState string

datatype MachineStatusError = MachineStatusError string

datatype cell = InstanceState_cell InstanceState | MachineStatusError_cell MachineStatusError

text \<open>A pointer to a cell: \<open>None\<close> is \<^verbatim>\<open>nil\<close>, \<open>Some a\<close> the cell at address \<open>a\<close>.\<close>

type_synonym cellref = "nat option"

type_synonym gomap = "string \<rightharpoonup> string"

text \<open>A value of map type: \<open>None\<close> is the nil map, \<open>Some a\<close> the map object at address \<open>a\<close>.\<close>

type_synonym mapref = "nat option"

text \<open>
  The world a method runs in: the Go map objects and the cells by address (the address is
  the index), and the state of the backing store behind the client, whose type is left
  open.
\<close>

record 's world =
  maps :: "gomap list"
  cells :: "cell list"
  store :: 's

text \<open>\<^verbatim>\<open>make(map[string]string)\<close>: a new, empty map object at an address not in use.\<close>

definition make_map :: "'s world \<Rightarrow> nat \<times> 's world" where
  "make_map w = (length (maps w), w\<lparr>maps := maps w @ [Map.empty]\<rparr>)"

text \<open>\<^verbatim>\<open>t[k] = v\<close> on the map object at address \<open>t\<close>.\<close>

definition map_assign :: "nat \<Rightarrow> string \<Rightarrow> string \<Rightarrow> 's world \<Rightarrow> 's world" where
  "map_assign t k v w = w\<lparr>maps := (maps w)[t := (maps w ! t)(k \<mapsto> v)]\<rparr>"

text \<open>The content of a map value: the nil map reads as the empty map.\<close>

definition map_content :: "'s world \<Rightarrow> mapref \<Rightarrow> gomap" where
  "map_content w r = (case r of None \<Rightarrow> Map.empty | Some a \<Rightarrow> maps w ! a)"

text \<open>Go has no dangling references: a non-nil map value is the address of a map object.\<close>

definition valid_ref :: "'s world \<Rightarrow> mapref \<Rightarrow> bool" where
  "valid_ref w r = (case r of None \<Rightarrow> True | Some a \<Rightarrow> a < length (maps w))"


text \<open>What a pointer refers to, and the pointers that refer to a cell of the world.\<close>

definition cell_content :: "'s world \<Rightarrow> cellref \<Rightarrow> cell option" where
  "cell_content w r = (case r of None \<Rightarrow> None | Some a \<Rightarrow> Some (cells w ! a))"


subsection \<open>The API types\<close>

text \<open>
  Modelled from the spec: the type declarations of \<^verbatim>\<open>api/v1alpha2\<close> (\<^verbatim>\<open>AWSMachine\<close>,
  \<^verbatim>\<open>AWSCluster\<close>, \<^verbatim>\<open>InstanceState\<close>, \<^verbatim>\<open>Tags\<close>) are not under src/. The records have the
  fields that machine.go reads and writes, under the paths it uses, with the types the
  spec's data model gives them (section 3: optional provider ID, optional instance state,
  ready flag, optional error reason and message, address list, annotation map, tag map).
  \<^verbatim>\<open>clusterv1.Cluster\<close>, \<^verbatim>\<open>client.Client\<close>, \<^verbatim>\<open>logr.Logger\<close> and \<^verbatim>\<open>AWSClients\<close> are
  handles: machine.go reads no field of them.
\<close>

record NodeAddress =
  Type :: string
  Address :: string

record AWSClusterSpec =
  AdditionalTags :: mapref

record AWSCluster =
  Spec :: AWSClusterSpec

record AWSMachineSpec =
  ProviderID :: "string option"
  AdditionalTags :: mapref

record AWSMachineStatus =
  Ready :: bool
  InstanceState :: cellref
  ErrorReason :: cellref
  ErrorMessage :: "string option"
  Addresses :: "NodeAddress list"

record AWSMachine =
  Name :: string
  Namespace :: string
  Annotations :: mapref
  Spec :: AWSMachineSpec
  Status :: AWSMachineStatus

text \<open>The owner machine: its label map is a Go map like any other.\<close>

record Machine =
  Labels :: mapref

datatype Cluster = ClusterHandle nat

datatype Client = ClientHandle nat

datatype AWSClients = AWSClientsHandle nat

text \<open>A logger is the one \<^verbatim>\<open>klogr.New()\<close> makes or one the caller supplied.\<close>

datatype Logger = klogr_New | LoggerHandle nat

subsection \<open>Construction\<close>

record MachineScopeParams =
  AWSClients :: AWSClients
  Client :: "Client option"
  Logger :: "Logger option"
  Cluster :: "Cluster option"
  Machine :: "Machine option"
  AWSCluster :: "AWSCluster option"
  AWSMachine :: "AWSMachine option"

text \<open>
  The scope. \<^verbatim>\<open>patchHelper\<close> is the \<^verbatim>\<open>*patch.Helper\<close> of
  \<^verbatim>\<open>sigs.k8s.io/cluster-api/util/patch\<close>, a module outside this repository: its type is
  left open.
\<close>

record 'h MachineScope =
  Logger :: Logger
  client :: Client
  patchHelper :: 'h
  Cluster :: Cluster
  Machine :: Machine
  AWSCluster :: AWSCluster
  AWSMachine :: AWSMachine

text \<open>
  \<^verbatim>\<open>NewMachineScope\<close>. \<^verbatim>\<open>patch.NewHelper\<close> is code of another module: it is the
  parameter \<open>NewHelper\<close>, a function of the machine record as it is when the constructor
  runs (the record and the world it lives in) and of the client, returning a helper or an
  error.
\<close>

definition NewMachineScope ::
  "('s world \<Rightarrow> AWSMachine \<Rightarrow> Client \<Rightarrow> error + 'h) \<Rightarrow> MachineScopeParams \<Rightarrow> 's world
    \<Rightarrow> error + 'h MachineScope" where
  "NewMachineScope NewHelper params w =
    (case MachineScopeParams.Client params of
       None \<Rightarrow> Inl (errors_New ''client is required when creating a MachineScope'')
     | Some c \<Rightarrow>
    (case MachineScopeParams.Machine params of
       None \<Rightarrow> Inl (errors_New ''machine is required when creating a MachineScope'')
     | Some machine \<Rightarrow>
    (case MachineScopeParams.Cluster params of
       None \<Rightarrow> Inl (errors_New ''cluster is required when creating a MachineScope'')
     | Some cluster \<Rightarrow>
    (case MachineScopeParams.AWSMachine params of
       None \<Rightarrow> Inl (errors_New ''aws machine is required when creating a MachineScope'')
     | Some awsMachine \<Rightarrow>
    (case MachineScopeParams.AWSCluster params of
       None \<Rightarrow> Inl (errors_New ''aws cluster is required when creating a MachineScope'')
     | Some awsCluster \<Rightarrow>
    (let logger = (case MachineScopeParams.Logger params of
                     None \<Rightarrow> klogr_New | Some l \<Rightarrow> l)
     in case NewHelper w awsMachine c of
          Inl err \<Rightarrow> Inl (errors_Wrap err ''failed to init patch helper'')
        | Inr helper \<Rightarrow>
            Inr \<lparr>MachineScope.Logger = logger,
                 client = c,
                 patchHelper = helper,
                 Cluster = cluster,
                 Machine = machine,
                 AWSCluster = awsCluster,
                 AWSMachine = awsMachine\<rparr>))))))"

text \<open>
  The spec's reading of the required inputs, for comparison with the code: the five
  collaborators in the order the spec fixes (client, machine, cluster, machine record,
  cluster record), each with the name the error gives it and whether it is absent; the
  first absent one; and the error that names a collaborator.
\<close>

definition required_inputs :: "MachineScopeParams \<Rightarrow> (string \<times> bool) list" where
  "required_inputs params =
    [(''client'', MachineScopeParams.Client params = None),
     (''machine'', MachineScopeParams.Machine params = None),
     (''cluster'', MachineScopeParams.Cluster params = None),
     (''aws machine'', MachineScopeParams.AWSMachine params = None),
     (''aws cluster'', MachineScopeParams.AWSCluster params = None)]"

definition first_absent :: "MachineScopeParams \<Rightarrow> string option" where
  "first_absent params = map_option fst (find snd (required_inputs params))"

definition MissingInputError :: "string \<Rightarrow> error" where
  "MissingInputError name = errors_New (name @ '' is required when creating a MachineScope'')"

subsection \<open>Collaborators outside the file\<close>

text \<open>
  The parts of the parser of provider IDs, \<^verbatim>\<open>noderefutil.NewProviderID\<close> below: what it
  returns, its error, the text before the first \<^verbatim>\<open>://\<close> with the text after it, and
  the last segment of a path.
\<close>

record ProviderID =
  cloudProvider :: string
  resourceID :: string

definition ParseError :: error where
  "ParseError = errors_New ''providerID must be of the form scheme://identifier''"

fun split_scheme :: "string \<Rightarrow> (string \<times> string) option" where
  "split_scheme [] = None"
| "split_scheme (c # cs) =
    (if take 3 (c # cs) = ''://'' then Some ([], drop 3 (c # cs))
     else map_option (\<lambda>(scheme, rest). (c # scheme, rest)) (split_scheme cs))"

definition last_segment :: "string \<Rightarrow> string" where
  "last_segment path = rev (takeWhile (\<lambda>c. c \<noteq> CHR ''/'') (rev path))"

text \<open>
  Modelled from the spec: \<^verbatim>\<open>noderefutil.NewProviderID\<close> and the \<^verbatim>\<open>ID()\<close> method of its
  result (module \<^verbatim>\<open>sigs.k8s.io/cluster-api\<close>) are not under src/. The spec gives the
  provider ID the structure \<open>scheme://identifier\<close> (glossary), has the parser split it
  into a scheme and an identifier or fail (section 4.2), and takes the identifier of
  \<^verbatim>\<open>aws:///us-east-1a/i-0123\<close> to be \<^verbatim>\<open>i-0123\<close> (section 8): the identifier is the last
  segment of what follows the separator. An empty string, a string without the separator,
  an empty scheme and an empty identifier do not parse.
\<close>

definition NewProviderID :: "string \<Rightarrow> error + ProviderID" where
  "NewProviderID s =
    (if s = [] then Inl ParseError
     else case split_scheme s of
       None \<Rightarrow> Inl ParseError
     | Some (scheme, rest) \<Rightarrow>
         if scheme = [] \<or> last_segment rest = [] then Inl ParseError
         else Inr \<lparr>cloudProvider = scheme, resourceID = last_segment rest\<rparr>)"

definition ID :: "ProviderID \<Rightarrow> string" where
  "ID p = resourceID p"

text \<open>\<^verbatim>\<open>pointer.StringPtr(v)\<close>: a pointer to a copy of the string.\<close>

definition StringPtr :: "string \<Rightarrow> string option" where
  "StringPtr v = Some v"

text \<open>
  The name of the control-plane label, and the read \<^verbatim>\<open>m[k]\<close> of a Go map of strings:
  a missing key, or any key of the nil map, gives the empty string.
\<close>

definition MachineControlPlaneLabelName :: string where
  "MachineControlPlaneLabelName = ''cluster.x-k8s.io/control-plane''"

definition map_index :: "'s world \<Rightarrow> mapref \<Rightarrow> string \<Rightarrow> string" where
  "map_index w m k =
    (case m of
       None \<Rightarrow> []
     | Some a \<Rightarrow> (case (maps w ! a) k of None \<Rightarrow> [] | Some v \<Rightarrow> v))"

text \<open>
  Modelled from the spec: \<^verbatim>\<open>util.IsControlPlaneMachine\<close> (module
  \<^verbatim>\<open>sigs.k8s.io/cluster-api\<close>) is not under src/. The spec has the owner machine carry a
  role-determining label that marks control-plane membership (section 3), read as a
  boolean (section 6), with an absent marker meaning a worker node (section 8): the
  machine is a control-plane machine when the control-plane label is set on it.
\<close>

definition IsControlPlaneMachine :: "'s world \<Rightarrow> Machine \<Rightarrow> bool" where
  "IsControlPlaneMachine w machine =
    (map_index w (Labels machine) MachineControlPlaneLabelName \<noteq> [])"

text \<open>
  Modelled from the spec: \<^verbatim>\<open>Tags.Merge\<close> (\<^verbatim>\<open>api/v1alpha2\<close> of this repository) is not
  under src/. Section 4.5: merge is upsert by key, the later merge wins ties. The receiver
  \<open>t\<close> is the address of the map that is updated in place; merging the nil map changes
  nothing.
\<close>

definition Merge :: "nat \<Rightarrow> mapref \<Rightarrow> 's world \<Rightarrow> 's world" where
  "Merge t other w =
    (case other of
       None \<Rightarrow> w
     | Some b \<Rightarrow> w\<lparr>maps := (maps w)[t := (maps w ! t) ++ (maps w ! b)]\<rparr>)"

text \<open>
  The contexts of Go's \<^verbatim>\<open>context\<close> package that matter here: the two empty ones, which
  are never cancelled and have no deadline, and the ones derived with a cancel function
  or a timeout. \<open>can_cancel\<close> says whether the context can ever be done.
\<close>

datatype "context" =
    context_Background
  | context_TODO
  | context_WithCancel "context"
  | context_WithTimeout "context" nat

fun can_cancel :: "context \<Rightarrow> bool" where
  "can_cancel context_Background = False"
| "can_cancel context_TODO = False"
| "can_cancel (context_WithCancel parent) = True"
| "can_cancel (context_WithTimeout parent d) = True"

subsection \<open>Accessors\<close>

definition Name :: "'h MachineScope \<Rightarrow> string" where
  "Name m = AWSMachine.Name (MachineScope.AWSMachine m)"

definition Namespace :: "'h MachineScope \<Rightarrow> string" where
  "Namespace m = AWSMachine.Namespace (MachineScope.AWSMachine m)"

text \<open>The two role methods read the owner machine's label map, which is in the world.\<close>

definition IsControlPlane :: "'h MachineScope \<times> 's world \<Rightarrow> bool" where
  "IsControlPlane st =
    (case st of (m, w) \<Rightarrow> IsControlPlaneMachine w (MachineScope.Machine m))"

definition Role :: "'h MachineScope \<times> 's world \<Rightarrow> string" where
  "Role st =
    (case st of (m, w) \<Rightarrow>
      (if IsControlPlaneMachine w (MachineScope.Machine m) then ''control-plane''
       else ''node''))"

definition GetProviderID :: "'h MachineScope \<Rightarrow> string" where
  "GetProviderID m =
    (case ProviderID (AWSMachine.Spec (MachineScope.AWSMachine m)) of
       Some v \<Rightarrow> v
     | None \<Rightarrow> [])"

definition GetInstanceID :: "'h MachineScope \<Rightarrow> string option" where
  "GetInstanceID m =
    (case NewProviderID (GetProviderID m) of
       Inl err \<Rightarrow> None
     | Inr parsed \<Rightarrow> StringPtr (ID parsed))"


subsection \<open>Mutators\<close>

text \<open>
  A method with a pointer receiver that assigns to a field of \<^verbatim>\<open>m.AWSMachine\<close> takes the
  scope and the world and returns both. The two helpers write the \<^verbatim>\<open>Spec\<close> and the
  \<^verbatim>\<open>Status\<close> of the scope's machine record.
\<close>

definition update_Spec ::
  "(AWSMachineSpec \<Rightarrow> AWSMachineSpec) \<Rightarrow> 'h MachineScope \<Rightarrow> 'h MachineScope" where
  "update_Spec f m =
    m\<lparr>MachineScope.AWSMachine :=
        (MachineScope.AWSMachine m)\<lparr>AWSMachine.Spec :=
            f (AWSMachine.Spec (MachineScope.AWSMachine m))\<rparr>\<rparr>"

definition update_Status ::
  "(AWSMachineStatus \<Rightarrow> AWSMachineStatus) \<Rightarrow> 'h MachineScope \<Rightarrow> 'h MachineScope" where
  "update_Status f m =
    m\<lparr>MachineScope.AWSMachine :=
        (MachineScope.AWSMachine m)\<lparr>AWSMachine.Status :=
            f (AWSMachine.Status (MachineScope.AWSMachine m))\<rparr>\<rparr>"

definition SetProviderID ::
  "string \<Rightarrow> 'h MachineScope \<times> 's world \<Rightarrow> 'h MachineScope \<times> 's world" where
  "SetProviderID v st =
    (case st of (m, w) \<Rightarrow> (update_Spec (\<lambda>spec. spec\<lparr>ProviderID := StringPtr v\<rparr>) m, w))"


definition SetReady :: "'h MachineScope \<times> 's world \<Rightarrow> 'h MachineScope \<times> 's world" where
  "SetReady st =
    (case st of (m, w) \<Rightarrow> (update_Status (\<lambda>status. status\<lparr>Ready := True\<rparr>) m, w))"




text \<open>
  \<^verbatim>\<open>SetAnnotation\<close>: the nil check that installs a new empty map, then the assignment
  into the map the field now refers to.
\<close>

definition init_Annotations ::
  "'h MachineScope \<times> 's world \<Rightarrow> nat \<times> 'h MachineScope \<times> 's world" where
  "init_Annotations st =
    (case st of (m, w) \<Rightarrow>
      (case Annotations (MachineScope.AWSMachine m) of
         None \<Rightarrow>
           (case make_map w of (a, w') \<Rightarrow>
             (a, m\<lparr>MachineScope.AWSMachine :=
                      (MachineScope.AWSMachine m)\<lparr>Annotations := Some a\<rparr>\<rparr>, w'))
       | Some a \<Rightarrow> (a, m, w)))"

definition SetAnnotation ::
  "string \<Rightarrow> string \<Rightarrow> 'h MachineScope \<times> 's world \<Rightarrow> 'h MachineScope \<times> 's world" where
  "SetAnnotation key val st =
    (case init_Annotations st of (a, m, w) \<Rightarrow> (m, map_assign a key val w))"


subsection \<open>Commit and tag merge\<close>

text \<open>
  \<^verbatim>\<open>Close\<close>. \<^verbatim>\<open>Helper.Patch\<close> is code of another module: it is the parameter \<open>Patch\<close>. It
  receives the helper, a context and the pointer to the machine record, so it may read
  and write the record and the world; it performs network I/O, so it may never return,
  which is the result \<open>None\<close>. Otherwise it returns its error (\<open>None\<close> for \<^verbatim>\<open>nil\<close>).
\<close>

type_synonym ('h, 's) Patch =
  "'h \<Rightarrow> context \<Rightarrow> AWSMachine \<times> 's world \<Rightarrow> (error option \<times> AWSMachine \<times> 's world) option"

definition Close ::
  "('h, 's) Patch \<Rightarrow> 'h MachineScope \<times> 's world
    \<Rightarrow> (error option \<times> 'h MachineScope \<times> 's world) option" where
  "Close Patch st =
    (case st of (m, w) \<Rightarrow>
      (case Patch (patchHelper m) context_TODO (MachineScope.AWSMachine m, w) of
         None \<Rightarrow> None
       | Some (err, awsMachine, w') \<Rightarrow>
           Some (err, m\<lparr>MachineScope.AWSMachine := awsMachine\<rparr>, w')))"

text \<open>
  The commit as section 5 of the spec asks for it, for comparison with \<open>Close\<close>: the
  caller supplies the context and the write receives it.
\<close>

definition Commit_with_context ::
  "context \<Rightarrow> ('h, 's) Patch \<Rightarrow> 'h MachineScope \<times> 's world
    \<Rightarrow> (error option \<times> 'h MachineScope \<times> 's world) option" where
  "Commit_with_context ctx Patch st =
    (case st of (m, w) \<Rightarrow>
      (case Patch (patchHelper m) ctx (MachineScope.AWSMachine m, w) of
         None \<Rightarrow> None
       | Some (err, awsMachine, w') \<Rightarrow>
           Some (err, m\<lparr>MachineScope.AWSMachine := awsMachine\<rparr>, w')))"

text \<open>
  \<^verbatim>\<open>AdditionalTags\<close>: a new map, the cluster's tags merged into it, then the machine's.
  The result is the map value that is returned and the world that holds the new map.
\<close>

definition AdditionalTags :: "'h MachineScope \<times> 's world \<Rightarrow> mapref \<times> 's world" where
  "AdditionalTags st =
    (case st of (m, w) \<Rightarrow>
      (case make_map w of (tags, w1) \<Rightarrow>
        (let w2 = Merge tags (AWSClusterSpec.AdditionalTags
                                (AWSCluster.Spec (MachineScope.AWSCluster m))) w1;
             w3 = Merge tags (AWSMachineSpec.AdditionalTags
                                (AWSMachine.Spec (MachineScope.AWSMachine m))) w2
         in (Some tags, w3))))"

subsection \<open>What a mutator leaves alone\<close>










subsection \<open>Sample values\<close>

text \<open>
  A world with two tag maps, the cluster's at address 0 and the machine's at address 1,
  and a label map at address 2 that carries the control-plane label; records that refer
  to the tag maps; a machine record without annotations, provider ID or status; an owner
  machine without labels.
\<close>

definition sample_world :: "unit world" where
  "sample_world =
    \<lparr>maps = [[''env'' \<mapsto> ''prod'', ''team'' \<mapsto> ''x''], [''env'' \<mapsto> ''dev''],
             [''cluster.x-k8s.io/control-plane'' \<mapsto> ''true'']],
     cells = [],
     store = ()\<rparr>"

definition sample_AWSCluster :: AWSCluster where
  "sample_AWSCluster = \<lparr>AWSCluster.Spec = \<lparr>AWSClusterSpec.AdditionalTags = Some 0\<rparr>\<rparr>"

definition sample_AWSMachine :: AWSMachine where
  "sample_AWSMachine =
    \<lparr>AWSMachine.Name = ''machine-0'',
     Namespace = ''default'',
     Annotations = None,
     Spec = \<lparr>ProviderID = None, AdditionalTags = Some 1\<rparr>,
     Status = \<lparr>Ready = False, InstanceState = None, ErrorReason = None,
               ErrorMessage = None, Addresses = []\<rparr>\<rparr>"

definition sample_Machine :: Machine where
  "sample_Machine = \<lparr>Labels = None\<rparr>"

definition sample_params :: MachineScopeParams where
  "sample_params =
    \<lparr>AWSClients = AWSClientsHandle 0,
     Client = Some (ClientHandle 0),
     Logger = None,
     Cluster = Some (ClusterHandle 0),
     Machine = Some sample_Machine,
     AWSCluster = Some sample_AWSCluster,
     AWSMachine = Some sample_AWSMachine\<rparr>"

text \<open>
  A before snapshot: the machine record with the content of the maps and cells it refers
  to. Two helper constructors to run the constructor with: one that takes the snapshot,
  one that fails.
\<close>

type_synonym snapshot = "AWSMachine \<times> gomap \<times> gomap \<times> cell option \<times> cell option"

definition record_view :: "'s world \<Rightarrow> AWSMachine \<Rightarrow> snapshot" where
  "record_view w a =
    (a,
     map_content w (Annotations a),
     map_content w (AWSMachineSpec.AdditionalTags (AWSMachine.Spec a)),
     cell_content w (InstanceState (AWSMachine.Status a)),
     cell_content w (ErrorReason (AWSMachine.Status a)))"

definition snapshot_NewHelper :: "'s world \<Rightarrow> AWSMachine \<Rightarrow> Client \<Rightarrow> error + snapshot" where
  "snapshot_NewHelper w awsMachine c = Inr (record_view w awsMachine)"

definition failing_NewHelper :: "'s world \<Rightarrow> AWSMachine \<Rightarrow> Client \<Rightarrow> error + snapshot" where
  "failing_NewHelper w awsMachine c = Inl (errors_New ''failed to convert'')"

definition sample_scope :: "snapshot MachineScope" where
  "sample_scope =
    \<lparr>MachineScope.Logger = klogr_New,
     client = ClientHandle 0,
     patchHelper = record_view sample_world sample_AWSMachine,
     Cluster = ClusterHandle 0,
     Machine = sample_Machine,
     AWSCluster = sample_AWSCluster,
     AWSMachine = sample_AWSMachine\<rparr>"

text \<open>
  The same scope with both tag fields nil; with an owner machine that carries the
  control-plane label; and with the annotation field on the machine's tag map, as after
  \<^verbatim>\<open>m.AWSMachine.Annotations = m.AWSMachine.Spec.AdditionalTags\<close>.
\<close>

definition untagged_scope :: "snapshot MachineScope" where
  "untagged_scope =
    sample_scope
      \<lparr>MachineScope.AWSCluster := \<lparr>AWSCluster.Spec = \<lparr>AWSClusterSpec.AdditionalTags = None\<rparr>\<rparr>,
       MachineScope.AWSMachine :=
         sample_AWSMachine\<lparr>AWSMachine.Spec := \<lparr>ProviderID = None, AdditionalTags = None\<rparr>\<rparr>\<rparr>"

definition control_plane_scope :: "snapshot MachineScope" where
  "control_plane_scope = sample_scope\<lparr>MachineScope.Machine := \<lparr>Labels = Some 2\<rparr>\<rparr>"


text \<open>
  A patch helper that works from the difference between its before snapshot and the
  record it is given, against a store that never answers: with nothing to write it
  returns at once and without a write; otherwise its write returns, with an error, only
  if its context can be done.
\<close>

definition hung_store_Patch :: "(snapshot, 's) Patch" where
  "hung_store_Patch helper ctx x =
    (case x of (awsMachine, w) \<Rightarrow>
      if record_view w awsMachine = helper then Some (None, awsMachine, w)
      else if can_cancel ctx
        then Some (Some (errors_New ''context deadline exceeded''), awsMachine, w)
        else None)"

section \<open>Properties\<close>

subsection \<open>Construction\<close>

text \<open>
  C2. An input bundle that misses at least one of the five required collaborators is
  refused: the constructor returns the error that names the first absent one, in the
  order client, machine, cluster, machine record, cluster record, and it returns no scope
  (the result is the error branch).
\<close>

theorem NewMachineScope_missing_input:
  assumes "MachineScopeParams.Client params = None
         \<or> MachineScopeParams.Machine params = None
         \<or> MachineScopeParams.Cluster params = None
         \<or> MachineScopeParams.AWSMachine params = None
         \<or> MachineScopeParams.AWSCluster params = None"
  shows "\<exists>name. first_absent params = Some name
            \<and> NewMachineScope NewHelper params w = Inl (MissingInputError name)"
  using assms
  by (auto simp: NewMachineScope_def first_absent_def required_inputs_def
        MissingInputError_def split: option.splits)

theorem NewMachineScope_missing_input_witness:
  "first_absent (sample_params\<lparr>MachineScopeParams.Machine := None, MachineScopeParams.AWSCluster := None\<rparr>) = Some ''machine''
   \<and> NewMachineScope snapshot_NewHelper
        (sample_params\<lparr>MachineScopeParams.Machine := None, MachineScopeParams.AWSCluster := None\<rparr>) sample_world
      = Inl (errors_New ''machine is required when creating a MachineScope'')"
  using NewMachineScope_missing_input
    [of "sample_params\<lparr>MachineScopeParams.Machine := None, MachineScopeParams.AWSCluster := None\<rparr>"
        snapshot_NewHelper sample_world]
  by (simp add: sample_params_def first_absent_def required_inputs_def MissingInputError_def)

text \<open>
  C8. With all five required collaborators present, the constructor asks for the patch
  helper of the machine record as the record is at that moment. If the helper cannot be
  made, the constructor returns the helper's error wrapped in
  \<^verbatim>\<open>failed to init patch helper\<close> and no scope; otherwise it returns the scope that holds
  this helper together with the very record the helper was made from, the logger
  defaulted when absent.
\<close>

theorem NewMachineScope_helper:
  assumes "MachineScopeParams.Client params = Some c"
    and "MachineScopeParams.Machine params = Some machine"
    and "MachineScopeParams.Cluster params = Some cluster"
    and "MachineScopeParams.AWSMachine params = Some awsMachine"
    and "MachineScopeParams.AWSCluster params = Some awsCluster"
  shows "NewMachineScope NewHelper params w =
    (case NewHelper w awsMachine c of
       Inl err \<Rightarrow> Inl (errors_Wrap err ''failed to init patch helper'')
     | Inr helper \<Rightarrow>
         Inr \<lparr>MachineScope.Logger =
                (case MachineScopeParams.Logger params of None \<Rightarrow> klogr_New | Some l \<Rightarrow> l),
              client = c, patchHelper = helper, Cluster = cluster, Machine = machine,
              AWSCluster = awsCluster, AWSMachine = awsMachine\<rparr>)"
  using assms by (simp add: NewMachineScope_def split: sum.splits)

theorem NewMachineScope_helper_witness:
  "NewMachineScope failing_NewHelper sample_params sample_world
     = Inl (errors_Wrap (errors_New ''failed to convert'') ''failed to init patch helper'')
   \<and> NewMachineScope snapshot_NewHelper sample_params sample_world = Inr sample_scope"
  using NewMachineScope_helper
      [of sample_params "ClientHandle 0" sample_Machine "ClusterHandle 0" sample_AWSMachine
          sample_AWSCluster failing_NewHelper sample_world]
    NewMachineScope_helper
      [of sample_params "ClientHandle 0" sample_Machine "ClusterHandle 0" sample_AWSMachine
          sample_AWSCluster snapshot_NewHelper sample_world]
  by (simp add: sample_params_def sample_scope_def failing_NewHelper_def snapshot_NewHelper_def)

subsection \<open>Provider ID and instance ID\<close>

lemma NewProviderID_aws:
  "NewProviderID ''aws:///us-east-1a/i-0123'' = Inr \<lparr>cloudProvider = ''aws'', resourceID = ''i-0123''\<rparr>"
  by (simp add: NewProviderID_def last_segment_def)

lemma NewProviderID_invalid: "NewProviderID ''not-a-valid-id'' = Inl ParseError"
  by (simp add: NewProviderID_def)

lemma GetProviderID_SetProviderID: "GetProviderID (fst (SetProviderID v (m, w))) = v"
  by (simp add: GetProviderID_def SetProviderID_def update_Spec_def StringPtr_def)

text \<open>
  C4. On any scope, after \<^verbatim>\<open>SetProviderID("aws:///us-east-1a/i-0123")\<close> the instance ID
  is \<^verbatim>\<open>i-0123\<close>, and after \<^verbatim>\<open>SetProviderID("not-a-valid-id")\<close> there is no instance
  ID: the result is the absent value, not an error.
\<close>

theorem SetProviderID_GetInstanceID_examples:
  "GetInstanceID (fst (SetProviderID ''aws:///us-east-1a/i-0123'' (m, w))) = Some ''i-0123''
   \<and> GetInstanceID (fst (SetProviderID ''not-a-valid-id'' (m, w))) = None"
  by (simp add: GetInstanceID_def GetProviderID_SetProviderID NewProviderID_aws
        NewProviderID_invalid ID_def StringPtr_def)

theorem SetProviderID_GetInstanceID_examples_witness:
  "GetInstanceID (fst (SetProviderID ''aws:///us-east-1a/i-0123'' (sample_scope, sample_world)))
     = Some ''i-0123''
   \<and> GetInstanceID (fst (SetProviderID ''not-a-valid-id'' (sample_scope, sample_world))) = None"
  using SetProviderID_GetInstanceID_examples [of sample_scope sample_world] by simp

text \<open>
  C5. \<^verbatim>\<open>GetProviderID\<close> returns the stored provider ID, or the empty string when the
  field is unset; it is a total function, so it never fails. \<^verbatim>\<open>GetInstanceID\<close> returns
  the absent value whenever the provider ID is unset and whenever the parser rejects the
  stored string, in particular when the string has no \<^verbatim>\<open>://\<close>: its result type has no
  error, so no parse failure gets past it.
\<close>

theorem GetProviderID_GetInstanceID_total:
  "GetProviderID m =
     (case ProviderID (AWSMachine.Spec (MachineScope.AWSMachine m)) of
        None \<Rightarrow> [] | Some v \<Rightarrow> v)
   \<and> (ProviderID (AWSMachine.Spec (MachineScope.AWSMachine m)) = None
        \<longrightarrow> GetInstanceID m = None)
   \<and> ((\<exists>err. NewProviderID (GetProviderID m) = Inl err) \<longrightarrow> GetInstanceID m = None)
   \<and> (split_scheme (GetProviderID m) = None \<longrightarrow> GetInstanceID m = None)"
  by (auto simp: GetProviderID_def GetInstanceID_def NewProviderID_def split: option.splits)

theorem GetProviderID_GetInstanceID_total_witness:
  "GetProviderID sample_scope = [] \<and> GetInstanceID sample_scope = None
   \<and> GetProviderID (fst (SetProviderID ''not-a-valid-id'' (sample_scope, sample_world)))
       = ''not-a-valid-id''
   \<and> GetInstanceID (fst (SetProviderID ''not-a-valid-id'' (sample_scope, sample_world))) = None"
  using GetProviderID_GetInstanceID_total [of sample_scope]
    GetProviderID_GetInstanceID_total
      [of "fst (SetProviderID ''not-a-valid-id'' (sample_scope, sample_world))"]
  by (simp add: sample_scope_def sample_AWSMachine_def SetProviderID_def update_Spec_def
        StringPtr_def)

subsection \<open>Role\<close>

text \<open>
  C6. For every owner machine and every world, \<^verbatim>\<open>Role\<close> is \<^verbatim>\<open>control-plane\<close> exactly when
  \<^verbatim>\<open>IsControlPlane\<close> holds and \<^verbatim>\<open>node\<close> otherwise, so the two never disagree; a
  machine without the marker (no label map, or no control-plane label in it) is a
  \<^verbatim>\<open>node\<close>.
\<close>

theorem Role_IsControlPlane:
  "(Role (m, w) = ''control-plane'' \<longleftrightarrow> IsControlPlane (m, w))
   \<and> (\<not> IsControlPlane (m, w) \<longrightarrow> Role (m, w) = ''node'')
   \<and> ((case Labels (MachineScope.Machine m) of
          None \<Rightarrow> True | Some a \<Rightarrow> (maps w ! a) MachineControlPlaneLabelName = None)
        \<longrightarrow> \<not> IsControlPlane (m, w) \<and> Role (m, w) = ''node'')"
  by (auto simp: Role_def IsControlPlane_def IsControlPlaneMachine_def map_index_def
        split: option.splits)

theorem Role_IsControlPlane_witness:
  "\<not> IsControlPlane (sample_scope, sample_world)
   \<and> Role (sample_scope, sample_world) = ''node''
   \<and> IsControlPlane (control_plane_scope, sample_world)
   \<and> Role (control_plane_scope, sample_world) = ''control-plane''"
  using Role_IsControlPlane [of sample_scope sample_world]
    Role_IsControlPlane [of control_plane_scope sample_world]
  by (simp add: sample_scope_def sample_Machine_def control_plane_scope_def sample_world_def
        IsControlPlane_def IsControlPlaneMachine_def map_index_def
        MachineControlPlaneLabelName_def)

subsection \<open>Tag merge\<close>

lemma AdditionalTags_result:
  assumes "valid_ref w (AWSClusterSpec.AdditionalTags (AWSCluster.Spec (MachineScope.AWSCluster m)))"
    and "valid_ref w (AWSMachineSpec.AdditionalTags (AWSMachine.Spec (MachineScope.AWSMachine m)))"
  shows "AdditionalTags (m, w) =
    (Some (length (maps w)),
     w\<lparr>maps := maps w @
        [map_content w (AWSClusterSpec.AdditionalTags (AWSCluster.Spec (MachineScope.AWSCluster m)))
         ++ map_content w (AWSMachineSpec.AdditionalTags (AWSMachine.Spec (MachineScope.AWSMachine m)))]\<rparr>)"
  using assms
  by (auto simp: AdditionalTags_def make_map_def Merge_def valid_ref_def map_content_def
        nth_append split: option.splits)

text \<open>
  C3. For every scope whose two tag fields are nil or refer to map objects of the world,
  \<^verbatim>\<open>AdditionalTags\<close> returns a map that is never nil and is new: its address is none of
  the world before the call, every map object of that world keeps its content, and the
  backing store is untouched. Its content is the cluster's tags overridden by the
  machine's: a key of the machine's tags has the machine's value, any other key has what
  the cluster's tags give it. A second call in the resulting world returns another new map
  with equal content.
\<close>

theorem AdditionalTags_merge:
  assumes "valid_ref w (AWSClusterSpec.AdditionalTags (AWSCluster.Spec (MachineScope.AWSCluster m)))"
    and "valid_ref w (AWSMachineSpec.AdditionalTags (AWSMachine.Spec (MachineScope.AWSMachine m)))"
    and "ctags = map_content w (AWSClusterSpec.AdditionalTags (AWSCluster.Spec (MachineScope.AWSCluster m)))"
    and "mtags = map_content w (AWSMachineSpec.AdditionalTags (AWSMachine.Spec (MachineScope.AWSMachine m)))"
  shows "\<exists>t w'. AdditionalTags (m, w) = (Some t, w')
      \<and> \<not> t < length (maps w) \<and> valid_ref w' (Some t)
      \<and> (\<forall>a < length (maps w). maps w' ! a = maps w ! a)
      \<and> store w' = store w
      \<and> map_content w' (Some t) = ctags ++ mtags
      \<and> (\<forall>k v. mtags k = Some v \<longrightarrow> map_content w' (Some t) k = Some v)
      \<and> (\<forall>k. mtags k = None \<longrightarrow> map_content w' (Some t) k = ctags k)
      \<and> (\<exists>t2 w2. AdditionalTags (m, w') = (Some t2, w2) \<and> t2 \<noteq> t
            \<and> map_content w2 (Some t2) = map_content w' (Some t))"
proof -
  let ?c = "AWSClusterSpec.AdditionalTags (AWSCluster.Spec (MachineScope.AWSCluster m))"
  let ?m = "AWSMachineSpec.AdditionalTags (AWSMachine.Spec (MachineScope.AWSMachine m))"
  let ?t = "length (maps w)"
  let ?w' = "w\<lparr>maps := maps w @ [ctags ++ mtags]\<rparr>"
  have first: "AdditionalTags (m, w) = (Some ?t, ?w')"
    using AdditionalTags_result [OF assms(1,2)] assms(3,4) by simp
  have valid': "valid_ref ?w' ?c" "valid_ref ?w' ?m"
    using assms(1,2) by (auto simp: valid_ref_def split: option.splits)
  have same: "map_content ?w' ?c = ctags" "map_content ?w' ?m = mtags"
    using assms by (auto simp: map_content_def valid_ref_def nth_append split: option.splits)
  have second: "AdditionalTags (m, ?w') =
      (Some (Suc ?t), ?w'\<lparr>maps := maps ?w' @ [ctags ++ mtags]\<rparr>)"
    using AdditionalTags_result [OF valid'] same by simp
  have content: "map_content ?w' (Some ?t) = ctags ++ mtags"
    by (simp add: map_content_def)
  have wins: "\<forall>k v. mtags k = Some v \<longrightarrow> (ctags ++ mtags) k = Some v"
    by (simp add: map_add_Some_iff)
  have survives: "\<forall>k. mtags k = None \<longrightarrow> (ctags ++ mtags) k = ctags k"
    by (simp add: map_add_def)
  have again: "map_content (?w'\<lparr>maps := maps ?w' @ [ctags ++ mtags]\<rparr>) (Some (Suc ?t))
      = ctags ++ mtags"
    by (simp add: map_content_def nth_append)
  show ?thesis
    using first second content wins survives again
    by (simp add: valid_ref_def nth_append)
qed

theorem AdditionalTags_merge_witness:
  "(\<exists>t w'. AdditionalTags (sample_scope, sample_world) = (Some t, w')
      \<and> valid_ref w' (Some t)
      \<and> map_content w' (Some t) = [''env'' \<mapsto> ''dev'', ''team'' \<mapsto> ''x''])
   \<and> (\<exists>t w'. AdditionalTags (untagged_scope, sample_world) = (Some t, w')
      \<and> valid_ref w' (Some t)
      \<and> map_content w' (Some t) = Map.empty)"
proof -
  have c: "valid_ref sample_world
      (AWSClusterSpec.AdditionalTags (AWSCluster.Spec (MachineScope.AWSCluster sample_scope)))"
    by (simp add: valid_ref_def sample_world_def sample_scope_def sample_AWSCluster_def)
  have m: "valid_ref sample_world
      (AWSMachineSpec.AdditionalTags (AWSMachine.Spec (MachineScope.AWSMachine sample_scope)))"
    by (simp add: valid_ref_def sample_world_def sample_scope_def sample_AWSMachine_def)
  have cm: "map_content sample_world
        (AWSClusterSpec.AdditionalTags (AWSCluster.Spec (MachineScope.AWSCluster sample_scope)))
      ++ map_content sample_world
        (AWSMachineSpec.AdditionalTags (AWSMachine.Spec (MachineScope.AWSMachine sample_scope)))
      = [''env'' \<mapsto> ''dev'', ''team'' \<mapsto> ''x'']"
    by (auto simp: map_content_def sample_world_def sample_scope_def sample_AWSCluster_def
          sample_AWSMachine_def map_add_def fun_eq_iff)
  have c0: "valid_ref sample_world
      (AWSClusterSpec.AdditionalTags (AWSCluster.Spec (MachineScope.AWSCluster untagged_scope)))"
    by (simp add: valid_ref_def untagged_scope_def)
  have m0: "valid_ref sample_world
      (AWSMachineSpec.AdditionalTags (AWSMachine.Spec (MachineScope.AWSMachine untagged_scope)))"
    by (simp add: valid_ref_def untagged_scope_def)
  have cm0: "map_content sample_world
        (AWSClusterSpec.AdditionalTags (AWSCluster.Spec (MachineScope.AWSCluster untagged_scope)))
      ++ map_content sample_world
        (AWSMachineSpec.AdditionalTags (AWSMachine.Spec (MachineScope.AWSMachine untagged_scope)))
      = Map.empty"
    by (simp add: map_content_def untagged_scope_def)
  have tagged: "\<exists>t w'. AdditionalTags (sample_scope, sample_world) = (Some t, w')
      \<and> valid_ref w' (Some t)
      \<and> map_content w' (Some t) = [''env'' \<mapsto> ''dev'', ''team'' \<mapsto> ''x'']"
    using AdditionalTags_merge [OF c m refl refl] cm by auto
  have untagged: "\<exists>t w'. AdditionalTags (untagged_scope, sample_world) = (Some t, w')
      \<and> valid_ref w' (Some t)
      \<and> map_content w' (Some t) = Map.empty"
    using AdditionalTags_merge [OF c0 m0 refl refl] cm0 by auto
  show ?thesis using tagged untagged by blast
qed

subsection \<open>Annotations\<close>

lemma SetAnnotation_result:
  "SetAnnotation key val (m, w) =
    (case Annotations (MachineScope.AWSMachine m) of
       None \<Rightarrow>
         (m\<lparr>MachineScope.AWSMachine :=
              (MachineScope.AWSMachine m)\<lparr>Annotations := Some (length (maps w))\<rparr>\<rparr>,
          w\<lparr>maps := maps w @ [[key \<mapsto> val]]\<rparr>)
     | Some a \<Rightarrow> (m, w\<lparr>maps := (maps w)[a := (maps w ! a)(key \<mapsto> val)]\<rparr>))"
  by (simp add: SetAnnotation_def init_Annotations_def make_map_def map_assign_def
        split: option.splits)

lemma SetAnnotation_stores:
  assumes "valid_ref w (Annotations (MachineScope.AWSMachine m))"
    and "SetAnnotation key val (m, w) = (m', w')"
  shows "Annotations (MachineScope.AWSMachine m') \<noteq> None
    \<and> valid_ref w' (Annotations (MachineScope.AWSMachine m'))
    \<and> map_content w' (Annotations (MachineScope.AWSMachine m')) key = Some val"
  using assms
  by (auto simp: SetAnnotation_result valid_ref_def map_content_def split: option.splits)

text \<open>
  C7. After \<^verbatim>\<open>SetAnnotation(key, value)\<close> the annotation field is not nil, also when it
  was nil before the call, and the map it refers to gives the key the value. A second
  call with the same key leaves the field on the same map, and the key has the later
  value and not the earlier one.
\<close>

theorem SetAnnotation_upsert:
  assumes "valid_ref w (Annotations (MachineScope.AWSMachine m))"
    and "SetAnnotation key val (m, w) = (m', w')"
    and "SetAnnotation key val2 (m', w') = (m'', w'')"
  shows "Annotations (MachineScope.AWSMachine m') \<noteq> None
    \<and> valid_ref w' (Annotations (MachineScope.AWSMachine m'))
    \<and> map_content w' (Annotations (MachineScope.AWSMachine m')) key = Some val
    \<and> Annotations (MachineScope.AWSMachine m'') = Annotations (MachineScope.AWSMachine m')
    \<and> map_content w'' (Annotations (MachineScope.AWSMachine m'')) key = Some val2
    \<and> (val \<noteq> val2 \<longrightarrow>
          map_content w'' (Annotations (MachineScope.AWSMachine m'')) key \<noteq> Some val)"
proof -
  note one = SetAnnotation_stores [OF assms(1,2)]
  then have valid': "valid_ref w' (Annotations (MachineScope.AWSMachine m'))"
    by simp
  note two = SetAnnotation_stores [OF valid' assms(3)]
  have kept: "Annotations (MachineScope.AWSMachine m'') = Annotations (MachineScope.AWSMachine m')"
    using one assms(3) by (auto simp: SetAnnotation_result split: option.splits)
  show ?thesis using one two kept by auto
qed

theorem SetAnnotation_upsert_witness:
  "\<exists>a w''. SetAnnotation ''k'' ''new'' (SetAnnotation ''k'' ''old'' (sample_scope, sample_world))
      = (sample_scope\<lparr>MachineScope.AWSMachine := sample_AWSMachine\<lparr>Annotations := Some a\<rparr>\<rparr>, w'')
     \<and> map_content w'' (Some a) ''k'' = Some ''new''
     \<and> map_content w'' (Some a) ''k'' \<noteq> Some ''old''"
proof -
  have v: "valid_ref sample_world (Annotations (MachineScope.AWSMachine sample_scope))"
    by (simp add: valid_ref_def sample_scope_def sample_AWSMachine_def)
  obtain m' w' where 1: "SetAnnotation ''k'' ''old'' (sample_scope, sample_world) = (m', w')"
    by (cases "SetAnnotation ''k'' ''old'' (sample_scope, sample_world)")
  obtain m'' w'' where 2: "SetAnnotation ''k'' ''new'' (m', w') = (m'', w'')"
    by (cases "SetAnnotation ''k'' ''new'' (m', w')")
  have m': "m' = sample_scope\<lparr>MachineScope.AWSMachine := sample_AWSMachine\<lparr>Annotations := Some 3\<rparr>\<rparr>"
    using 1 by (auto simp: SetAnnotation_result sample_scope_def sample_AWSMachine_def sample_world_def numeral_3_eq_3)
  have m'': "m'' = m'"
    using 2 m' by (simp add: SetAnnotation_result sample_scope_def sample_AWSMachine_def)
  show ?thesis
    using SetAnnotation_upsert [OF v 1 2] 1 2 m' m''
    by (auto simp: sample_scope_def)
qed

subsection \<open>Mutators\<close>






















subsection \<open>Commit\<close>

lemma SetReady_sample:
  "SetReady (sample_scope, sample_world) =
    (sample_scope\<lparr>MachineScope.AWSMachine :=
        sample_AWSMachine\<lparr>AWSMachine.Status :=
          (AWSMachine.Status sample_AWSMachine)\<lparr>Ready := True\<rparr>\<rparr>\<rparr>, sample_world)"
  by (simp add: SetReady_def update_Status_def sample_scope_def)

lemma pending_change:
  "record_view sample_world
      (sample_AWSMachine\<lparr>AWSMachine.Status :=
          (AWSMachine.Status sample_AWSMachine)\<lparr>Ready := True\<rparr>\<rparr>)
    \<noteq> record_view sample_world sample_AWSMachine"
  by (simp add: record_view_def sample_AWSMachine_def)

text \<open>
  C9, as stated, fails. \<^verbatim>\<open>Close\<close> has no context parameter. Take a helper that writes
  only what differs from its snapshot, and a store that never answers. With nothing to
  write \<^verbatim>\<open>Close\<close> returns at once; after \<^verbatim>\<open>SetReady\<close> there is a change to write and
  \<^verbatim>\<open>Close\<close> never returns, while the commit that hands the write the caller's context,
  one with a timeout, returns the deadline error.
\<close>

theorem Close_context_counterexample:
  "Close hung_store_Patch (sample_scope, sample_world)
      = Some (None, sample_scope, sample_world)
   \<and> Close hung_store_Patch (SetReady (sample_scope, sample_world)) = None
   \<and> Commit_with_context (context_WithTimeout context_Background 30) hung_store_Patch
        (SetReady (sample_scope, sample_world))
      = Some (Some (errors_New ''context deadline exceeded''),
              SetReady (sample_scope, sample_world))
   \<and> Close hung_store_Patch (SetReady (sample_scope, sample_world))
      \<noteq> Commit_with_context (context_WithTimeout context_Background 30) hung_store_Patch
           (SetReady (sample_scope, sample_world))"
  using pending_change
  by (simp add: SetReady_sample Close_def Commit_with_context_def hung_store_Patch_def)
    (simp add: sample_scope_def)

text \<open>
  C9, amended. \<^verbatim>\<open>Close\<close> is the commit under the fixed context \<^verbatim>\<open>context.TODO()\<close>,
  which can never be done: no context of the caller reaches the write. So whenever the
  helper's call for the scope's record returns only under a context that can be done,
  \<^verbatim>\<open>Close\<close> does not return.
\<close>

theorem Close_context_TODO:
  "Close Patch st = Commit_with_context context_TODO Patch st
   \<and> \<not> can_cancel context_TODO
   \<and> ((\<forall>ctx. \<not> can_cancel ctx \<longrightarrow>
          Patch (patchHelper (fst st)) ctx (MachineScope.AWSMachine (fst st), snd st) = None)
        \<longrightarrow> Close Patch st = None)"
  by (cases st) (simp add: Close_def Commit_with_context_def)

theorem Close_context_TODO_witness:
  "Close hung_store_Patch (SetReady (sample_scope, sample_world)) = None
   \<and> Close hung_store_Patch (SetReady (sample_scope, sample_world))
       = Commit_with_context context_TODO hung_store_Patch
           (SetReady (sample_scope, sample_world))"
proof -
  have blocked: "\<forall>ctx. \<not> can_cancel ctx \<longrightarrow>
      hung_store_Patch (patchHelper (fst (SetReady (sample_scope, sample_world)))) ctx
        (MachineScope.AWSMachine (fst (SetReady (sample_scope, sample_world))),
         snd (SetReady (sample_scope, sample_world))) = None"
    using pending_change
    by (simp add: SetReady_sample hung_store_Patch_def) (simp add: sample_scope_def)
  show ?thesis
    using Close_context_TODO
      [of hung_store_Patch "SetReady (sample_scope, sample_world)"] blocked
    by blast
qed

end
